theory Spec2Isabelle
  imports Main "HOL-Library.Product_Lexorder" "HOL-Library.AList"
begin

section \<open>Data model\<close>

text \<open>
  The module works on pandas tables. A table is modelled row by row, as the list of its
  rows in table order; a column that a function adds for a while (\<open>missing\<close>,
  \<open>next\<close>, \<open>duration\<close>) is the second component of a pair, built with \<open>zip\<close>.
  The screen table has the columns user, device, time, datetime and the status column
  \<open>screen_status\<close>. The status is an integer, so \<open>pd.to_numeric\<close> leaves it as it is
  and no cell of the table is NaN; datetime is counted in whole seconds, so the
  \<open>Timedelta\<close> of two rows is the difference of their datetimes and
  \<open>total_seconds\<close> changes nothing.

  A Python exception is a value of \<open>error\<close>; a function that can raise returns
  \<open>error + 'a\<close> with the exception on the left.
\<close>

datatype error =
  AssertionError | TypeError | ValueError | KeyError | AttributeError | UnboundLocalError

record ('u, 'd) base =
  user :: 'u
  device :: 'd
  time :: int
  datetime :: int

record ('u, 'd) event = "('u, 'd) base" +
  screen_status :: int

record ('u, 'd) battery = "('u, 'd) base" +
  battery_value :: string

text \<open>A classified row: the status column is gone, the four flags are there.\<close>

record ('u, 'd) transition = "('u, 'd) base" +
  use :: int
  on :: int
  na :: int
  off :: int

text \<open>
  \<open>feature_functions\<close> is a Python dict from option names to values: a column name
  (a string) or the keyword arguments of \<open>resample\<close> (a dict of strings). The
  argument itself is \<open>None\<close> or such a dict, hence a \<open>config option\<close>.
\<close>

datatype cfgval = VStr string | VDict "(string \<times> string) list"

type_synonym config = "(string \<times> cfgval) list"

subsection \<open>Column primitives of pandas\<close>

text \<open>A column that may hold NaN (or NaT) is a list of options.\<close>

definition shift_back :: "'a option list \<Rightarrow> 'a option list" where
  \<comment> \<open>\<open>Series.shift(-1)\<close>: every cell takes the value below it, the last one NaN\<close>
  "shift_back xs = (case xs of [] \<Rightarrow> [] | x # t \<Rightarrow> t @ [None])"

definition shift_fwd :: "'a option list \<Rightarrow> 'a option list" where
  \<comment> \<open>\<open>Series.shift(1)\<close>: every cell takes the value above it, the first one NaN\<close>
  "shift_fwd xs = (case xs of [] \<Rightarrow> [] | x # t \<Rightarrow> None # butlast xs)"

definition fillna :: "'a \<Rightarrow> 'a option \<Rightarrow> 'a" where
  "fillna v c = (case c of None \<Rightarrow> v | Some x \<Rightarrow> x)"

definition minus_col :: "int option \<Rightarrow> int option \<Rightarrow> int option" where
  \<comment> \<open>cell-wise subtraction: NaN when either side is NaN\<close>
  "minus_col a b = (case a of None \<Rightarrow> None
     | Some x \<Rightarrow> (case b of None \<Rightarrow> None | Some y \<Rightarrow> Some (x - y)))"

definition diff :: "int list \<Rightarrow> int option list" where
  \<comment> \<open>\<open>Series.diff()\<close>: every cell minus the cell above it, the first one NaT\<close>
  "diff xs = map2 minus_col (map Some xs) (shift_fwd (map Some xs))"

definition sort_values :: "('u::linorder, 'd::linorder, 'z) base_scheme list
    \<Rightarrow> ('u, 'd, 'z) base_scheme list" where
  \<comment> \<open>\<open>sort_values(by=["user","device","datetime"])\<close>: a stable sort on the three keys\<close>
  "sort_values df = sort_key (\<lambda>r. (user r, device r, datetime r)) df"

text \<open>
  \<open>df.groupby("user", as_index=False).apply(f)\<close> calls \<open>f\<close> on the rows of each user,
  the users in ascending order, and stacks the results. Every result here is a slice of its
  group, so pandas puts a new outermost level on the index of the stacked table; a table
  with no row at all has no group, and then the result has a plain index of one level.
  \<open>droplevel(0)\<close> removes the outermost level and raises ValueError on an index of one
  level. The number of index levels is therefore carried along with the rows. (Releases
  before pandas 1.3 give the result of an empty table no columns either, so that where two
  \<open>groupby\<close> follow each other the second raises KeyError before \<open>droplevel\<close> is
  reached; the call fails in both.)
\<close>

type_synonym 'r indexed = "nat \<times> 'r list"

definition groupby_apply :: "('r \<Rightarrow> 'u::linorder) \<Rightarrow> ('r list \<Rightarrow> 'r list) \<Rightarrow> 'r indexed \<Rightarrow> 'r indexed" where
  "groupby_apply key f df =
     (if snd df = [] then (1, [])
      else (Suc (fst df),
            concat (map (\<lambda>u. f (filter (\<lambda>r. key r = u) (snd df)))
                        (sort (remdups (map key (snd df)))))))"

definition droplevel :: "'r indexed \<Rightarrow> error + 'r indexed" where
  "droplevel df = (if fst df \<le> 1 then Inl ValueError else Inr (fst df - 1, snd df))"

subsection \<open>Strings of integers\<close>

fun str_nat :: "nat \<Rightarrow> string" where
  "str_nat n = (if n < 10 then [''0123456789'' ! n]
                else str_nat (n div 10) @ [''0123456789'' ! (n mod 10)])"

declare str_nat.simps [simp del]

definition str :: "int \<Rightarrow> string" where
  \<comment> \<open>\<open>astype(int).astype(str)\<close> on an integer cell\<close>
  "str i = (if i < 0 then CHR ''-'' # str_nat (nat (- i)) else str_nat (nat i))"

section \<open>battery.py\<close>

text \<open>
  \<open>shutdown_info(battery_status)\<close> takes one pandas Series. The \<open>.str\<close> accessor exists
  on a Series of strings only, so a numeric Series raises AttributeError. When every string
  is numeric in the sense of \<open>str.isnumeric\<close> the Series is not converted, and comparing
  a string with \<open>-3\<close> raises TypeError (an empty Series has nothing to compare).
  Otherwise \<open>pd.to_numeric\<close> converts every cell or raises ValueError. The two library
  functions are parameters: \<open>isnumeric\<close> is Python's \<open>str.isnumeric\<close>, \<open>to_numeric\<close>
  gives the number a string denotes, or \<open>None\<close> where \<open>pd.to_numeric\<close> raises.
\<close>

datatype 'n series = StrSeries "string list" | NumSeries "'n list"

definition between :: "'n::linorder \<Rightarrow> 'n \<Rightarrow> 'n \<Rightarrow> bool" where
  \<comment> \<open>\<open>Series.between(left, right, inclusive=False)\<close> on one cell\<close>
  "between left right v = (left < v \<and> v < right)"

definition shutdown_info :: "(string \<Rightarrow> bool) \<Rightarrow> (string \<Rightarrow> 'n option)
    \<Rightarrow> ('n::linordered_idom) series \<Rightarrow> error + 'n list" where
  "shutdown_info isnumeric to_numeric battery_status =
     (case battery_status of
        NumSeries vs \<Rightarrow> Inl AttributeError
      | StrSeries xs \<Rightarrow>
          if list_all isnumeric xs
          then (if xs = [] then Inr [] else Inl TypeError)
          else if list_all (\<lambda>x. to_numeric x \<noteq> None) xs
          then Inr (filter (between (- 3) 0) (map (\<lambda>x. the (to_numeric x)) xs))
          else Inl ValueError)"

section \<open>screen.py\<close>

subsection \<open>The configuration\<close>

definition col_name :: "config \<Rightarrow> cfgval" where
  "col_name feature_functions =
     (case map_of feature_functions ''screen_column_name'' of
        None \<Rightarrow> VStr ''screen_status''
      | Some v \<Rightarrow> v)"

text \<open>
  \<open>df[col_name]\<close>: the tables of the model keep their status in the column
  \<open>screen_status\<close>, so another name is a KeyError. A dict in the place of the name is
  read by pandas as the list of its keys: a KeyError when one of them is no column of the
  table, and otherwise a table in the place of a column, which \<open>pd.to_numeric\<close>
  refuses with TypeError. (A configuration that takes user, device, time or datetime as
  the status column, or a dict of such names handed to event_classification_screen, which
  does not convert, is not followed any further than that.)
\<close>

definition columns :: "string list" where
  "columns = [''user'', ''device'', ''time'', ''datetime'', ''screen_status'']"

definition status_column :: "cfgval \<Rightarrow> error option" where
  "status_column c =
     (case c of
        VStr s \<Rightarrow> if s = ''screen_status'' then None else Some KeyError
      | VDict d \<Rightarrow> if list_all (\<lambda>k. k \<in> set columns) (map fst d) then Some TypeError
                  else Some KeyError)"

definition resample_args :: "config \<Rightarrow> error + (string \<times> string) list" where
  \<comment> \<open>\<open>resample(**feature_functions["resample_args"])\<close>: the value has to be a mapping,
      and \<open>resample\<close> cannot be called without its parameter \<open>rule\<close>\<close>
  "resample_args feature_functions =
     (case map_of feature_functions ''resample_args'' of
        None \<Rightarrow> Inl KeyError
      | Some (VStr s) \<Rightarrow> Inl TypeError
      | Some (VDict d) \<Rightarrow> if map_of d ''rule'' = None then Inl TypeError else Inr d)"

definition default_resample_args :: "config \<Rightarrow> config" where
  \<comment> \<open>\<open>if not "resample_args" in feature_functions.keys(): feature_functions["resample_args"] = {"rule":"30T"}\<close>\<close>
  "default_resample_args feature_functions =
     (if map_of feature_functions ''resample_args'' = None
      then AList.update ''resample_args'' (VDict [(''rule'', ''30T'')]) feature_functions
      else feature_functions)"

subsection \<open>util_screen\<close>

text \<open>
  \<open>util_screen\<close> calls \<open>b.shutdown_info(bat, feature_functions)\<close>, two positional
  arguments, while \<open>battery.shutdown_info\<close> has the single parameter
  \<open>battery_status\<close>: Python raises TypeError when it binds the arguments, before the
  body runs. (Bound to a table or a dict alone, the body would raise AttributeError at
  \<open>.str\<close>.) The call never returns, so its result type is whatever the caller expects:
  a table of shutdown rows. Lines 47 to 52, which no call reaches, are written down as they
  read, on shutdown rows with the columns of the screen table.
\<close>

datatype ('u, 'd) pyarg = ArgFrame "('u, 'd) battery list" | ArgDict config

definition b_shutdown_info :: "('u, 'd) pyarg list \<Rightarrow> error + 'r" where
  "b_shutdown_info args =
     (case args of
        [battery_status] \<Rightarrow> Inl AttributeError
      | _ \<Rightarrow> Inl TypeError)"

definition replace :: "int list \<Rightarrow> int \<Rightarrow> ('u, 'd) event \<Rightarrow> ('u, 'd) event" where
  \<comment> \<open>\<open>shutdown.replace([-1,-2],0)\<close> on the value of one row\<close>
  "replace olds new r =
     (if screen_status r \<in> set olds then r\<lparr>screen_status := new\<rparr> else r)"

text \<open>
  Sorting, the helper columns and \<open>fillna\<close> work in place on the table the caller
  passed, as long as \<open>df\<close> has not been rebound to a new table; no statement writes to
  \<open>bat\<close>. To follow this, the body of a function that is handed a battery table is
  modelled as a call: the outcome (the exception raised or the value returned) and, beside
  it, what has become of the caller's objects when the call ends either way, in the order of
  the parameters: the caller's table as its rows and the column the function has left on
  it, the battery table, the configuration. \<open>returned\<close> is the view of a call that the
  caller has of it: an exception, or the value with the objects.
\<close>

type_synonym ('u, 'd) objects =
  "(('u, 'd) event list \<times> int list option) \<times> ('u, 'd) battery list \<times> config"

definition returned :: "(error + 'a) \<times> 'c \<Rightarrow> error + ('a \<times> 'c)" where
  "returned call = (case fst call of Inl e \<Rightarrow> Inl e | Inr x \<Rightarrow> Inr (x, snd call))"

definition missing_column :: "int list \<Rightarrow> int list" where
  "missing_column status =
     (let nxt = shift_back (map Some status);
          dummy = map2 minus_col (map Some status) nxt;
          missing = map (\<lambda>d. if d = Some 0 then 1 else 0) dummy;
          missing = shift_fwd (map Some missing)
      in map (fillna 0) missing)"

definition detect_missing :: "('u::linorder, 'd::linorder) event list
    \<Rightarrow> (('u, 'd) event \<times> int) list" where
  \<comment> \<open>lines 55 to 64: the sorted table with its column \<open>missing\<close>\<close>
  "detect_missing df =
     (let df = sort_values df in zip df (missing_column (map screen_status df)))"

definition discard_missing :: "(('u, 'd) event \<times> int) list \<Rightarrow> ('u, 'd) event list" where
  \<comment> \<open>lines 66 and 67: \<open>df[df.missing == 0]\<close> without the column \<open>missing\<close>\<close>
  "discard_missing df = map fst (filter (\<lambda>r. snd r = 0) df)"

definition util_screen_call :: "('u::linorder, 'd::linorder) event list
    \<Rightarrow> ('u, 'd) battery list \<Rightarrow> config
    \<Rightarrow> (error + ('u, 'd) event list) \<times> ('u, 'd) objects" where
  \<comment> \<open>lines 37 to 68, \<open>feature_functions\<close> being a dict\<close>
  "util_screen_call df bat ff =
     (case status_column (col_name ff) of
        Some e \<Rightarrow> (Inl e, (df, None), bat, ff)
      | None \<Rightarrow>
         if bat \<noteq> [] then
           (case b_shutdown_info [ArgFrame bat, ArgDict ff] of
              Inl e \<Rightarrow> (Inl e, (df, None), bat, ff)
            | Inr shutdown \<Rightarrow>
               (let shutdown = map (replace [- 1, - 2] 0) shutdown in
                if shutdown \<noteq> []
                then (Inr (discard_missing (detect_missing (df @ shutdown))),
                      (df, None), bat, ff)
                else let marked = detect_missing df
                     in (Inr (discard_missing marked),
                         (map fst marked, Some (map snd marked)), bat, ff)))
         else let marked = detect_missing df
              in (Inr (discard_missing marked),
                  (map fst marked, Some (map snd marked)), bat, ff))"

definition util_screen :: "('u::linorder, 'd::linorder) event list \<Rightarrow> ('u, 'd) battery list
    \<Rightarrow> config option
    \<Rightarrow> error + (('u, 'd) event list
                 \<times> (('u, 'd) event list \<times> int list option) \<times> ('u, 'd) battery list \<times> config)" where
  "util_screen df bat feature_functions =
     (case feature_functions of
        None \<Rightarrow> Inl AssertionError
      | Some ff \<Rightarrow> returned (util_screen_call df bat ff))"

subsection \<open>event_classification_screen\<close>

definition pair_codes :: "int list \<Rightarrow> string list" where
  \<comment> \<open>line 106: the status and the status of the row below, as one string\<close>
  "pair_codes status =
     map2 (\<lambda>a b. str a @ str (fillna 0 b)) status (shift_back (map Some status))"

text \<open>
  Lines 109 to 116. The four flag columns start at 0 and each is set to 1 under its own
  mask; then \<open>next\<close> and the status column are dropped. The assignment
  \<open>df["use"][mask] = 1\<close> goes through the column object; in the pandas releases the
  module is written for (those that still take \<open>inclusive=False\<close>) it writes into the
  table, and it is modelled so.
\<close>

definition flags :: "('u, 'd) event \<times> string \<Rightarrow> ('u, 'd) transition" where
  "flags r =
     (let nxt = snd r in
      \<lparr> user = user (fst r), device = device (fst r), time = time (fst r),
        datetime = datetime (fst r),
        use = (if nxt = ''30'' \<or> nxt = ''31'' \<or> nxt = ''32'' then 1 else 0),
        on = (if nxt = ''10'' \<or> nxt = ''12'' \<or> nxt = ''13'' \<or> nxt = ''20'' then 1 else 0),
        na = (if nxt = ''21'' \<or> nxt = ''23'' then 1 else 0),
        off = (if nxt = ''01'' \<or> nxt = ''02'' \<or> nxt = ''03'' then 1 else 0) \<rparr>)"

definition classified :: "('u::linorder, 'd::linorder) event list
    \<Rightarrow> error + ('u, 'd) transition indexed" where
  \<comment> \<open>lines 104 to 116: the flagged rows, before the first and the last are discarded\<close>
  "classified df =
     (let df = sort_values df;
          df = zip df (pair_codes (map screen_status df))
      in case droplevel (groupby_apply (\<lambda>r. user (fst r)) butlast (1, df)) of
           Inl e \<Rightarrow> Inl e
         | Inr df \<Rightarrow> Inr (fst df, map flags (snd df)))"

definition event_classification_screen :: "('u::linorder, 'd::linorder) event list
    \<Rightarrow> config option
    \<Rightarrow> error + (('u, 'd) transition list \<times> (('u, 'd) event list \<times> string list) \<times> config)" where
  "event_classification_screen df feature_functions =
     (case feature_functions of
        None \<Rightarrow> Inl AssertionError
      | Some ff \<Rightarrow>
         (case status_column (col_name ff) of
            Some e \<Rightarrow> Inl e
          | None \<Rightarrow>
             (case classified df of
                Inl e \<Rightarrow> Inl e
              | Inr df1 \<Rightarrow>
                 (case droplevel (groupby_apply user butlast (groupby_apply user tl df1)) of
                    Inl e \<Rightarrow> Inl e
                  | Inr df2 \<Rightarrow>
                     (case droplevel df2 of
                        Inl e \<Rightarrow> Inl e
                      | Inr df3 \<Rightarrow>
                         Inr (snd df3,
                              (sort_values df, pair_codes (map screen_status (sort_values df))),
                              ff))))))"

subsection \<open>duration_util_screen\<close>

definition exceeds :: "int option \<Rightarrow> int \<Rightarrow> bool" where
  \<comment> \<open>\<open>df.duration > thr\<close> on one cell: False on NaT\<close>
  "exceeds d thr = (case d of None \<Rightarrow> False | Some x \<Rightarrow> thr < x)"

definition thr :: int where
  \<comment> \<open>\<open>pd.Timedelta('10 hours')\<close>, in seconds\<close>
  "thr = 10 * 60 * 60"

definition durations :: "('u::linorder, 'd::linorder) transition list
    \<Rightarrow> error + (('u, 'd) transition \<times> int option) list" where
  \<comment> \<open>lines 143 to 150: the rows with their duration, the last row of every user discarded\<close>
  "durations df =
     (let df = sort_values df;
          duration = shift_back (diff (map datetime df))
      in case droplevel (groupby_apply (\<lambda>r. user (fst r)) butlast (1, zip df duration)) of
           Inl e \<Rightarrow> Inl e
         | Inr df \<Rightarrow> Inr (snd df))"

definition duration_util_screen :: "('u::linorder, 'd::linorder) transition list
    \<Rightarrow> error + ((('u, 'd) transition \<times> int option) list
                 \<times> (('u, 'd) transition list \<times> int option list))" where
  "duration_util_screen df =
     (case durations df of
        Inl e \<Rightarrow> Inl e
      | Inr df1 \<Rightarrow>
         (let df2 = filter (\<lambda>r. \<not> (on (fst r) = 1 \<and> exceeds (snd r) thr)) df1;
              df3 = filter (\<lambda>r. \<not> (use (fst r) = 1 \<and> exceeds (snd r) thr)) df2
          in Inr (df3, (sort_values df, shift_back (diff (map datetime (sort_values df)))))))"

subsection \<open>The metrics\<close>

text \<open>
  A metric returns a pandas table of named columns. What \<open>groupby("user")\<close>,
  \<open>resample\<close> and the reducer make of the cells is the library's business: a column is
  kept as its name, the reducer, the keyword arguments of \<open>resample\<close> and the cells
  (user, datetime, value) handed over. The tables are indexed by their datetime, as
  \<open>resample\<close> needs. \<open>pd.concat(tables, axis=1)\<close> puts the columns side by side and
  raises ValueError when there is no table.

  A metric is a call as \<open>util_screen\<close> is: beside its outcome stands what has become of
  the caller's \<open>df\<close> (rows and the column \<open>missing\<close>), \<open>bat\<close> and
  \<open>feature_functions\<close>. Inside a metric \<open>feature_functions\<close> is a dict, so the
  assertions of \<open>util_screen\<close> hold and the metric goes on with \<open>util_screen_call\<close>.
\<close>

datatype 'u column =
  Resampled string string "(string \<times> string) list" "('u \<times> int \<times> int option) list"
| Plain string "('u \<times> int \<times> int) list"

definition pd_concat :: "'u column list list \<Rightarrow> error + 'u column list" where
  "pd_concat tables = (if tables = [] then Inl ValueError else Inr (concat tables))"

type_synonym ('u, 'd) metric_result =
  "error + ('u column list
            \<times> (('u, 'd) event list \<times> int list option) \<times> ('u, 'd) battery list \<times> config)"

definition screen_off_call :: "('u::linorder, 'd::linorder) event list
    \<Rightarrow> ('u, 'd) battery list \<Rightarrow> config
    \<Rightarrow> (error + 'u column list) \<times> ('u, 'd) objects" where
  "screen_off_call df bat ff =
     (case util_screen_call df bat ff of
        (Inl e, caller) \<Rightarrow> (Inl e, caller)
      | (Inr df1, caller) \<Rightarrow>
         (let df2 = filter (\<lambda>r. screen_status r = 0) df1;
              df3 = map (\<lambda>r. r\<lparr>screen_status := 1\<rparr>) df2
          in (Inr [Plain ''screen_off'' (map (\<lambda>r. (user r, datetime r, screen_status r)) df3)],
              caller)))"

definition screen_off :: "('u::linorder, 'd::linorder) event list \<Rightarrow> ('u, 'd) battery list
    \<Rightarrow> config option \<Rightarrow> ('u, 'd) metric_result" where
  "screen_off df bat feature_functions =
     (case feature_functions of
        None \<Rightarrow> Inl AssertionError
      | Some ff \<Rightarrow> returned (screen_off_call df bat ff))"

definition screen_count_call :: "('u::linorder, 'd::linorder) event list
    \<Rightarrow> ('u, 'd) battery list \<Rightarrow> config
    \<Rightarrow> (error + 'u column list) \<times> ('u, 'd) objects" where
  "screen_count_call df bat ff0 =
     (let ff = default_resample_args ff0 in
      case util_screen_call df bat ff of
        (Inl e, caller) \<Rightarrow> (Inl e, caller)
      | (Inr df1, caller) \<Rightarrow>
         (case event_classification_screen df1 (Some ff) of
            Inl e \<Rightarrow> (Inl e, caller)
          | Inr (df2, local, ff'') \<Rightarrow>
             if length df2 > 0 then
               (case resample_args ff of
                  Inl e \<Rightarrow> (Inl e, caller)
                | Inr args \<Rightarrow>
                   (Inr [Resampled ''screen_on_count'' ''sum'' args
                           (map (\<lambda>r. (user r, datetime r, Some (on r))) df2),
                         Resampled ''screen_off_count'' ''sum'' args
                           (map (\<lambda>r. (user r, datetime r, Some (off r))) df2),
                         Resampled ''screen_use_count'' ''sum'' args
                           (map (\<lambda>r. (user r, datetime r, Some (use r))) df2)],
                    caller))
             else (Inl UnboundLocalError, caller)))"

definition screen_count :: "('u::linorder, 'd::linorder) event list \<Rightarrow> ('u, 'd) battery list
    \<Rightarrow> config option \<Rightarrow> ('u, 'd) metric_result" where
  "screen_count df bat feature_functions =
     (case feature_functions of
        None \<Rightarrow> Inl AssertionError
      | Some ff0 \<Rightarrow> returned (screen_count_call df bat ff0))"

text \<open>
  \<open>screen_duration\<close> and its five variants are the same text but for the reducer and the
  ending of the column names; \<open>duration_metric\<close> is that text and
  \<open>duration_metric_call\<close> its body.
\<close>

definition duration_metric_call :: "string \<Rightarrow> string
    \<Rightarrow> ('u::linorder, 'd::linorder) event list \<Rightarrow> ('u, 'd) battery list \<Rightarrow> config
    \<Rightarrow> (error + 'u column list) \<times> ('u, 'd) objects" where
  "duration_metric_call reducer ending df bat ff0 =
     (let ff = default_resample_args ff0 in
      case util_screen_call df bat ff of
        (Inl e, caller) \<Rightarrow> (Inl e, caller)
      | (Inr df1, caller) \<Rightarrow>
         (case event_classification_screen df1 (Some ff) of
            Inl e \<Rightarrow> (Inl e, caller)
          | Inr (df2, local, ff'') \<Rightarrow>
             (case duration_util_screen df2 of
                Inl e \<Rightarrow> (Inl e, caller)
              | Inr (df3, local') \<Rightarrow>
                 if length df3 > 0 then
                   (case resample_args ff of
                      Inl e \<Rightarrow> (Inl e, caller)
                    | Inr args \<Rightarrow>
                       (Inr [Resampled (''screen_on_duration'' @ ending) reducer args
                               (map (\<lambda>r. (user (fst r), datetime (fst r), snd r))
                                    (filter (\<lambda>r. on (fst r) = 1) df3)),
                             Resampled (''screen_off_duration'' @ ending) reducer args
                               (map (\<lambda>r. (user (fst r), datetime (fst r), snd r))
                                    (filter (\<lambda>r. off (fst r) = 1) df3)),
                             Resampled (''screen_use_duration'' @ ending) reducer args
                               (map (\<lambda>r. (user (fst r), datetime (fst r), snd r))
                                    (filter (\<lambda>r. use (fst r) = 1) df3))],
                        caller))
                 else (Inl UnboundLocalError, caller))))"

definition duration_metric :: "string \<Rightarrow> string \<Rightarrow> ('u::linorder, 'd::linorder) event list
    \<Rightarrow> ('u, 'd) battery list \<Rightarrow> config option \<Rightarrow> ('u, 'd) metric_result" where
  "duration_metric reducer ending df bat feature_functions =
     (case feature_functions of
        None \<Rightarrow> Inl AssertionError
      | Some ff0 \<Rightarrow> returned (duration_metric_call reducer ending df bat ff0))"

definition screen_duration :: "('u::linorder, 'd::linorder) event list \<Rightarrow> ('u, 'd) battery list
    \<Rightarrow> config option \<Rightarrow> ('u, 'd) metric_result" where
  "screen_duration = duration_metric ''sum'' ''total''"

definition screen_duration_min :: "('u::linorder, 'd::linorder) event list \<Rightarrow> ('u, 'd) battery list
    \<Rightarrow> config option \<Rightarrow> ('u, 'd) metric_result" where
  "screen_duration_min = duration_metric ''min'' ''minimum''"

definition screen_duration_max :: "('u::linorder, 'd::linorder) event list \<Rightarrow> ('u, 'd) battery list
    \<Rightarrow> config option \<Rightarrow> ('u, 'd) metric_result" where
  "screen_duration_max = duration_metric ''max'' ''maximum''"

definition screen_duration_mean :: "('u::linorder, 'd::linorder) event list \<Rightarrow> ('u, 'd) battery list
    \<Rightarrow> config option \<Rightarrow> ('u, 'd) metric_result" where
  "screen_duration_mean = duration_metric ''mean'' ''mean''"

definition screen_duration_median :: "('u::linorder, 'd::linorder) event list \<Rightarrow> ('u, 'd) battery list
    \<Rightarrow> config option \<Rightarrow> ('u, 'd) metric_result" where
  "screen_duration_median = duration_metric ''median'' ''median''"

definition screen_duration_std :: "('u::linorder, 'd::linorder) event list \<Rightarrow> ('u, 'd) battery list
    \<Rightarrow> config option \<Rightarrow> ('u, 'd) metric_result" where
  "screen_duration_std = duration_metric ''std'' ''std''"

definition screen_first_unlock_call :: "('u::linorder, 'd::linorder) event list
    \<Rightarrow> ('u, 'd) battery list \<Rightarrow> config
    \<Rightarrow> (error + 'u column list) \<times> ('u, 'd) objects" where
  "screen_first_unlock_call df bat ff0 =
     (let ff = default_resample_args ff0 in
      case util_screen_call df bat ff of
        (Inl e, caller) \<Rightarrow> (Inl e, caller)
      | (Inr df1, caller) \<Rightarrow>
         (case event_classification_screen df1 (Some ff) of
            Inl e \<Rightarrow> (Inl e, caller)
          | Inr (df2, local, ff'') \<Rightarrow>
             (Inr [Resampled ''datetime'' ''min'' [(''rule'', ''1D'')]
                     (map (\<lambda>r. (user r, datetime r, Some (datetime r)))
                          (filter (\<lambda>r. on r = 1) df2))],
              caller)))"

definition screen_first_unlock :: "('u::linorder, 'd::linorder) event list \<Rightarrow> ('u, 'd) battery list
    \<Rightarrow> config option \<Rightarrow> ('u, 'd) metric_result" where
  "screen_first_unlock df bat feature_functions =
     (case feature_functions of
        None \<Rightarrow> Inl AssertionError
      | Some ff0 \<Rightarrow> returned (screen_first_unlock_call df bat ff0))"

subsection \<open>extract_features_screen\<close>

datatype feature =
  Screen_off | Screen_count | Screen_duration | Screen_duration_min | Screen_duration_max
| Screen_duration_mean | Screen_duration_median | Screen_duration_std | Screen_first_unlock

definition ALL_FEATURE_FUNCTIONS :: "(feature \<times> config option) list" where
  \<comment> \<open>the functions of the module whose name starts with \<open>screen_\<close>, each with \<open>{}\<close>\<close>
  "ALL_FEATURE_FUNCTIONS =
     map (\<lambda>x. (x, Some []))
       [Screen_off, Screen_count, Screen_duration, Screen_duration_min, Screen_duration_max,
        Screen_duration_mean, Screen_duration_median, Screen_duration_std,
        Screen_first_unlock]"

definition call_feature :: "feature \<Rightarrow> ('u::linorder, 'd::linorder) event list
    \<Rightarrow> ('u, 'd) battery list \<Rightarrow> config option \<Rightarrow> ('u, 'd) metric_result" where
  "call_feature feature =
     (case feature of
        Screen_off \<Rightarrow> screen_off
      | Screen_count \<Rightarrow> screen_count
      | Screen_duration \<Rightarrow> screen_duration
      | Screen_duration_min \<Rightarrow> screen_duration_min
      | Screen_duration_max \<Rightarrow> screen_duration_max
      | Screen_duration_mean \<Rightarrow> screen_duration_mean
      | Screen_duration_median \<Rightarrow> screen_duration_median
      | Screen_duration_std \<Rightarrow> screen_duration_std
      | Screen_first_unlock \<Rightarrow> screen_first_unlock)"

text \<open>
  The loop of lines 622 to 625. Every call works on the caller's table as the call before
  has left it; the names of the features computed are kept beside their tables.
\<close>

fun computed_features :: "(feature \<times> config option) list
    \<Rightarrow> ('u::linorder, 'd::linorder) event list \<Rightarrow> ('u, 'd) battery list
    \<Rightarrow> error + (feature \<times> 'u column list) list" where
  "computed_features [] df bat = Inr []"
| "computed_features ((feature, feature_arg) # rest) df bat =
     (case call_feature feature df bat feature_arg of
        Inl e \<Rightarrow> Inl e
      | Inr (computed_feature, caller, bat', ff) \<Rightarrow>
         (case computed_features rest (fst caller) bat' of
            Inl e \<Rightarrow> Inl e
          | Inr others \<Rightarrow> Inr ((feature, computed_feature) # others)))"

definition extract_features_screen :: "('u::linorder, 'd::linorder) event list
    \<Rightarrow> ('u, 'd) battery list \<Rightarrow> (feature \<times> config option) list option
    \<Rightarrow> error + 'u column list" where
  "extract_features_screen df bat features =
     (let features = (case features of None \<Rightarrow> ALL_FEATURE_FUNCTIONS | Some fs \<Rightarrow> fs) in
      case computed_features features df bat of
        Inl e \<Rightarrow> Inl e
      | Inr computed \<Rightarrow> pd_concat (map snd computed))"

section \<open>Concrete inputs\<close>

text \<open>
  Tables for running the model: a screen row of user \<open>u\<close> on device 1 whose datetime is
  its time, and a battery row. \<open>ascii_isnumeric\<close> is \<open>str.isnumeric\<close> on ASCII
  strings: not empty and digits only.
\<close>

definition ev :: "nat \<Rightarrow> int \<Rightarrow> int \<Rightarrow> (nat, nat) event" where
  "ev u t s = \<lparr> user = u, device = 1, time = t, datetime = t, screen_status = s \<rparr>"

definition bt :: "nat \<Rightarrow> int \<Rightarrow> string \<Rightarrow> (nat, nat) battery" where
  "bt u t v = \<lparr> user = u, device = 1, time = t, datetime = t, battery_value = v \<rparr>"

definition tr :: "nat \<Rightarrow> int \<Rightarrow> int \<Rightarrow> int \<Rightarrow> int \<Rightarrow> int \<Rightarrow> (nat, nat) transition" where
  "tr u t f_use f_on f_na f_off =
     \<lparr> user = u, device = 1, time = t, datetime = t,
       use = f_use, on = f_on, na = f_na, off = f_off \<rparr>"

definition is_digit :: "char \<Rightarrow> bool" where
  "is_digit c = (c \<in> set ''0123456789'')"

definition ascii_isnumeric :: "string \<Rightarrow> bool" where
  "ascii_isnumeric s = (s \<noteq> [] \<and> list_all is_digit s)"

text \<open>
  The four events of one user of the end-to-end scenario, the same events out of order, and
  a classified table whose first transition lasts eleven hours and whose second lasts nine.
\<close>

definition scenario :: "(nat, nat) event list" where
  "scenario = [ev 1 0 1, ev 1 5 3, ev 1 20 1, ev 1 600 0]"

definition unsorted :: "(nat, nat) event list" where
  "unsorted = [ev 1 600 0, ev 1 20 1, ev 1 5 3, ev 1 0 1]"

definition long_on :: "(nat, nat) transition list" where
  "long_on = [tr 1 0 0 1 0 0, tr 1 39600 0 1 0 0, tr 1 72000 0 0 0 1, tr 1 72060 1 0 0 0]"

section \<open>Lemmas on the primitives\<close>

lemma length_shift_back [simp]: "length (shift_back xs) = length xs"
  by (cases xs) (simp_all add: shift_back_def)

lemma length_shift_fwd [simp]: "length (shift_fwd xs) = length xs"
  by (cases xs) (simp_all add: shift_fwd_def)

lemma length_pair_codes [simp]: "length (pair_codes xs) = length xs"
  by (simp add: pair_codes_def)

lemma length_missing_column [simp]: "length (missing_column xs) = length xs"
  by (simp add: missing_column_def)

lemma length_diff [simp]: "length (diff xs) = length xs"
  by (simp add: diff_def)

lemma nth_shift_back: "Suc i < length xs \<Longrightarrow> shift_back xs ! i = xs ! Suc i"
  by (cases xs) (simp_all add: shift_back_def nth_append)

lemma nth_pair_codes:
  assumes "Suc i < length xs"
  shows "pair_codes xs ! i = str (xs ! i) @ str (xs ! Suc i)"
  using assms by (simp add: pair_codes_def nth_shift_back fillna_def)

lemma in_butlast_filter:
  "x \<in> set (butlast (filter P xs)) \<Longrightarrow> \<exists>as bs. xs = as @ x # bs \<and> P x \<and> (\<exists>b \<in> set bs. P b)"
proof (induction xs)
  case Nil
  then show ?case by simp
next
  case (Cons a xs)
  show ?case
  proof (cases "P a")
    case False
    with Cons.prems have "x \<in> set (butlast (filter P xs))" by simp
    from Cons.IH [OF this] obtain as bs where "xs = as @ x # bs" "P x" "\<exists>b \<in> set bs. P b"
      by blast
    then have "a # xs = (a # as) @ x # bs \<and> P x \<and> (\<exists>b \<in> set bs. P b)" by simp
    then show ?thesis by blast
  next
    case True
    with Cons.prems have ne: "filter P xs \<noteq> []" and mem: "x = a \<or> x \<in> set (butlast (filter P xs))"
      by (auto split: if_splits)
    from mem show ?thesis
    proof
      assume "x = a"
      moreover from ne obtain b where "b \<in> set xs" "P b"
        by (auto simp add: filter_empty_conv)
      ultimately have "a # xs = [] @ x # xs \<and> P x \<and> (\<exists>b \<in> set xs. P b)"
        using True by auto
      then show ?thesis by blast
    next
      assume "x \<in> set (butlast (filter P xs))"
      from Cons.IH [OF this] obtain as bs where "xs = as @ x # bs" "P x" "\<exists>b \<in> set bs. P b"
        by blast
      then have "a # xs = (a # as) @ x # bs \<and> P x \<and> (\<exists>b \<in> set bs. P b)" by simp
      then show ?thesis by blast
    qed
  qed
qed

lemma groupby_apply_rows:
  assumes "x \<in> set (snd (groupby_apply key f df))"
  shows "\<exists>u. x \<in> set (f (filter (\<lambda>r. key r = u) (snd df)))"
  using assms by (auto simp add: groupby_apply_def split: if_splits)

lemma groupby_apply_subset:
  assumes "\<And>g. set (f g) \<subseteq> set g"
  shows "set (snd (groupby_apply key f df)) \<subseteq> set (snd df)"
proof
  fix x
  assume "x \<in> set (snd (groupby_apply key f df))"
  from groupby_apply_rows [OF this] obtain u where "x \<in> set (f (filter (\<lambda>r. key r = u) (snd df)))" ..
  with assms have "x \<in> set (filter (\<lambda>r. key r = u) (snd df))" by blast
  then show "x \<in> set (snd df)" by simp
qed

lemma droplevel_rows: "droplevel df = Inr df' \<Longrightarrow> snd df' = snd df"
  by (auto simp add: droplevel_def split: if_splits)

lemma groupby_butlast_next:
  assumes x: "x \<in> set (snd (groupby_apply key butlast df))"
    and sorted: "sorted (map key (snd df))"
  shows "\<exists>i. Suc i < length (snd df) \<and> snd df ! i = x \<and> key (snd df ! Suc i) = key x"
proof -
  from groupby_apply_rows [OF x] obtain u
    where "x \<in> set (butlast (filter (\<lambda>r. key r = u) (snd df)))" ..
  from in_butlast_filter [OF this] obtain as bs b
    where xs: "snd df = as @ x # bs" and u: "key x = u" and b: "b \<in> set bs" "key b = u"
    by blast
  from b obtain n bs' where bs: "bs = n # bs'" by (cases bs) auto
  from sorted xs bs have "key x \<le> key n"
    by (simp add: sorted_append)
  moreover from sorted xs bs b have "key n \<le> key b"
    by (auto simp add: sorted_append)
  ultimately have "key n = key x" using u b by simp
  with xs bs have "Suc (length as) < length (snd df) \<and> snd df ! length as = x
      \<and> key (snd df ! Suc (length as)) = key x"
    by (simp add: nth_append)
  then show ?thesis by blast
qed

lemma sorted_user_sort_values: "sorted (map user (sort_values df))"
proof -
  have "sorted (map (\<lambda>r. (user r, device r, datetime r)) (sort_values df))"
    unfolding sort_values_def by (rule sorted_sort_key)
  then have "sorted_wrt (\<lambda>x y. (user x, device x, datetime x) \<le> (user y, device y, datetime y))
      (sort_values df)"
    by (simp add: sorted_map)
  then have "sorted_wrt (\<lambda>x y. user x \<le> user y) (sort_values df)"
    by (rule sorted_wrt_mono_rel [rotated]) (auto simp add: less_eq_prod_def)
  then show ?thesis by (simp add: sorted_map)
qed

lemma map_fst_zip_key:
  "length xs = length ys \<Longrightarrow> map (\<lambda>r. f (fst r)) (zip xs ys) = map f xs"
  by (induct rule: list_induct2) simp_all

lemma set_tl_subset: "set (tl g) \<subseteq> set g"
  by (cases g) auto

lemma classified_rows:
  assumes c: "classified df = Inr df1" and r: "r \<in> set (snd df1)"
  shows "\<exists>i. Suc i < length (sort_values df)
      \<and> user (sort_values df ! Suc i) = user (sort_values df ! i)
      \<and> r = flags (sort_values df ! i,
                    str (screen_status (sort_values df ! i))
                    @ str (screen_status (sort_values df ! Suc i)))"
proof -
  let ?s = "sort_values df"
  let ?t = "zip ?s (pair_codes (map screen_status ?s))"
  let ?g = "groupby_apply (\<lambda>r. user (fst r)) butlast (1, ?t)"
  from c obtain d where d: "droplevel ?g = Inr d" and df1: "df1 = (fst d, map flags (snd d))"
    by (auto simp add: classified_def Let_def split: sum.splits)
  from r df1 obtain x where x: "x \<in> set (snd d)" and rx: "r = flags x" by auto
  from x droplevel_rows [OF d] have "x \<in> set (snd ?g)" by simp
  moreover have "map (\<lambda>r. user (fst r)) ?t = map user ?s"
    by (rule map_fst_zip_key) simp
  then have "sorted (map (\<lambda>r. user (fst r)) (snd (1::nat, ?t)))"
    using sorted_user_sort_values [of df] by simp
  ultimately obtain i where i: "Suc i < length ?t" "?t ! i = x"
      "user (fst (?t ! Suc i)) = user (fst x)"
    using groupby_butlast_next [of x "\<lambda>r. user (fst r)" "(1, ?t)"] by auto
  from i have "Suc i < length ?s" by simp
  moreover from i have "x = (?s ! i, str (screen_status (?s ! i)) @ str (screen_status (?s ! Suc i)))"
    by (simp add: nth_pair_codes)
  moreover from i have "user (?s ! Suc i) = user (?s ! i)"
    by auto
  ultimately show ?thesis using rx by blast
qed

lemma event_classification_screen_rows:
  assumes "event_classification_screen df (Some ff) = Inr (out, caller)"
  shows "\<exists>df1. classified df = Inr df1 \<and> set out \<subseteq> set (snd df1)"
proof -
  from assms obtain df1 df2 df3 where c: "classified df = Inr df1"
    and d2: "droplevel (groupby_apply user butlast (groupby_apply user tl df1)) = Inr df2"
    and d3: "droplevel df2 = Inr df3" and out: "out = snd df3"
    by (auto simp add: event_classification_screen_def split: option.splits sum.splits)
  have "set (snd (groupby_apply user butlast (groupby_apply user tl df1)))
      \<subseteq> set (snd (groupby_apply user tl df1))"
    by (rule groupby_apply_subset) (auto dest: in_set_butlastD)
  also have "\<dots> \<subseteq> set (snd df1)"
    by (rule groupby_apply_subset) (rule set_tl_subset)
  finally show ?thesis using c out droplevel_rows [OF d2] droplevel_rows [OF d3] by auto
qed


lemma flags_table:
  "user (flags (e, code)) = user e \<and> device (flags (e, code)) = device e
   \<and> time (flags (e, code)) = time e \<and> datetime (flags (e, code)) = datetime e
   \<and> (use (flags (e, code)), on (flags (e, code)), na (flags (e, code)), off (flags (e, code))) =
       (if code = ''30'' \<or> code = ''31'' \<or> code = ''32'' then (1, 0, 0, 0)
        else if code = ''10'' \<or> code = ''12'' \<or> code = ''13'' \<or> code = ''20'' then (0, 1, 0, 0)
        else if code = ''21'' \<or> code = ''23'' then (0, 0, 1, 0)
        else if code = ''01'' \<or> code = ''02'' \<or> code = ''03'' then (0, 0, 0, 1)
        else (0, 0, 0, 0))"
  by (auto simp add: flags_def)

lemma nth_shift_fwd_Suc:
  assumes "Suc i < length xs"
  shows "shift_fwd xs ! Suc i = xs ! i"
proof (cases xs)
  case Nil
  with assms show ?thesis by simp
next
  case (Cons a t)
  with assms have "i < length (butlast (a # t))" by (simp del: butlast.simps)
  then have "butlast (a # t) ! i = (a # t) ! i" by (rule nth_butlast)
  with Cons show ?thesis by (simp add: shift_fwd_def del: butlast.simps)
qed

lemma fillna_shift_fwd_0: "xs \<noteq> [] \<Longrightarrow> map (fillna v) (shift_fwd xs) ! 0 = v"
  by (cases xs) (simp_all add: shift_fwd_def fillna_def)

lemma nth_missing_column_0:
  assumes "s \<noteq> []"
  shows "missing_column s ! 0 = 0"
  unfolding missing_column_def Let_def
proof (rule fillna_shift_fwd_0)
  have "length (map Some (map (\<lambda>d. if d = Some 0 then 1 else (0::int))
      (map2 minus_col (map Some s) (shift_back (map Some s))))) = length s"
    by simp
  with assms show "map Some (map (\<lambda>d. if d = Some 0 then 1 else (0::int))
      (map2 minus_col (map Some s) (shift_back (map Some s)))) \<noteq> []"
    by (metis length_0_conv)
qed

lemma nth_missing_column_Suc:
  assumes "Suc i < length s"
  shows "missing_column s ! Suc i = (if s ! i = s ! Suc i then 1 else 0)"
  using assms
  by (simp add: missing_column_def nth_shift_fwd_Suc nth_shift_back fillna_def minus_col_def)

lemma missing_column_Cons:
  "missing_column (x # t) = 0 # map2 (\<lambda>a b. if a = b then 1 else 0) (x # t) t"
proof (rule nth_equalityI)
  show "length (missing_column (x # t))
      = length (0 # map2 (\<lambda>a b. if a = b then 1 else (0::int)) (x # t) t)"
    by simp
next
  fix i
  assume "i < length (missing_column (x # t))"
  then have i: "i < Suc (length t)" by simp
  show "missing_column (x # t) ! i = (0 # map2 (\<lambda>a b. if a = b then 1 else 0) (x # t) t) ! i"
  proof (cases i)
    case 0
    then show ?thesis by (simp add: nth_missing_column_0)
  next
    case (Suc j)
    with i have "Suc j < length (x # t)" by simp
    from nth_missing_column_Suc [OF this] Suc i show ?thesis by simp
  qed
qed

lemma discard_marks:
  "map f (map fst (filter (\<lambda>r. snd r = 0)
       (zip rs (map2 (\<lambda>a b. if a = b then 1 else (0::int)) (p # map f rs) (map f rs)))))
   = tl (remdups_adj (p # map f rs))"
proof (induction rs arbitrary: p)
  case Nil
  show ?case by simp
next
  case (Cons r rs)
  have hd: "remdups_adj (f r # map f rs) = f r # tl (remdups_adj (f r # map f rs))"
    by (cases "remdups_adj (f r # map f rs)") (auto dest: arg_cong [where f = hd] simp add: hd_remdups_adj)
  show ?case
  proof (cases "p = f r")
    case True
    with Cons [of "f r"] show ?thesis by simp
  next
    case False
    with Cons [of "f r"] hd show ?thesis by simp
  qed
qed

lemma discard_detect_status:
  "map screen_status (discard_missing (detect_missing df))
     = remdups_adj (map screen_status (sort_values df))"
proof (cases "sort_values df")
  case Nil
  then show ?thesis by (simp add: discard_missing_def detect_missing_def Let_def)
next
  case (Cons r rs)
  have "map screen_status (discard_missing (detect_missing df))
      = screen_status r # tl (remdups_adj (screen_status r # map screen_status rs))"
    using discard_marks [of screen_status rs "screen_status r"] Cons
    by (simp add: discard_missing_def detect_missing_def Let_def missing_column_Cons)
  also have "\<dots> = remdups_adj (screen_status r # map screen_status rs)"
    by (cases "remdups_adj (screen_status r # map screen_status rs)")
      (auto dest: arg_cong [where f = hd] simp add: hd_remdups_adj)
  finally show ?thesis using Cons by simp
qed

section \<open>The Shutdown Extractor\<close>

text \<open>
  Where the extractor returns, it keeps the values strictly between -3 and 0 and no other:
  that is the case of a Series of strings that convert to numbers and are not all numeric
  in the sense of \<open>isnumeric\<close> (a minus sign is enough).
\<close>

lemma shutdown_info_strictly_between:
  assumes "\<not> list_all isnumeric xs" and "list_all (\<lambda>x. to_numeric x \<noteq> None) xs"
  shows "\<exists>shutdown. shutdown_info isnumeric to_numeric (StrSeries xs) = Inr shutdown
           \<and> shutdown = filter (\<lambda>v. - 3 < v \<and> v < 0) (map (\<lambda>x. the (to_numeric x)) xs)
           \<and> (\<forall>v. v \<in> set shutdown \<longleftrightarrow>
                  v \<in> set (map (\<lambda>x. the (to_numeric x)) xs) \<and> - 3 < v \<and> v < 0)
           \<and> 0 \<notin> set shutdown \<and> - 3 \<notin> set shutdown \<and> 1 \<notin> set shutdown"
  using assms by (auto simp add: shutdown_info_def between_def [abs_def])

text \<open>
  C7. For every battery status value \<open>v\<close> the Shutdown Extractor is to classify \<open>v\<close> as
  a shutdown record if and only if \<open>-3 < v < 0\<close>, and 0, -3 and 1 as no shutdown. The
  code classifies nothing on two kinds of input that its comment "convert to numeric in
  case it is not" provides for. A Series of numbers, here -2, 0 and -1, has no \<open>.str\<close>
  accessor: AttributeError, and the value -2 is not classified as a shutdown. A Series of
  strings that are all numeric, here the value 0, or 50 and 100, is not converted, and the
  comparison of a string with -3 raises TypeError.
\<close>

theorem shutdown_info_raises:
  "shutdown_info isnumeric to_numeric (NumSeries [- 2, 0, - 1 :: int]) = Inl AttributeError
   \<and> shutdown_info ascii_isnumeric to_numeric (StrSeries [''0'']) = Inl TypeError
   \<and> shutdown_info ascii_isnumeric to_numeric (StrSeries [''50'', ''100'']) = Inl TypeError"
  by (simp add: shutdown_info_def ascii_isnumeric_def is_digit_def)

section \<open>The Timeline Merger\<close>

lemma returned_Inr: "returned call = Inr (x, c) \<longleftrightarrow> fst call = Inr x \<and> snd call = c"
  by (cases "fst call") (auto simp add: returned_def)

lemma returned_Inl: "returned call = Inl e \<longleftrightarrow> fst call = Inl e"
  by (cases "fst call") (auto simp add: returned_def)

lemma util_screen_call_battery:
  "fst (util_screen_call df (b # bat) ff) = Inl KeyError
   \<or> fst (util_screen_call df (b # bat) ff) = Inl TypeError"
  by (auto simp add: util_screen_call_def b_shutdown_info_def status_column_def
      split: option.splits cfgval.splits)

lemma util_screen_call_Inr:
  assumes "fst (util_screen_call df bat ff) = Inr out"
  shows "bat = [] \<and> out = discard_missing (detect_missing df)
     \<and> fst (snd (util_screen_call df bat ff))
         = (sort_values df, Some (missing_column (map screen_status (sort_values df))))"
proof -
  have bat: "bat = []"
  proof (cases bat)
    case (Cons b t)
    with assms util_screen_call_battery [of df b t ff] show ?thesis by auto
  qed simp
  with assms show ?thesis
    by (auto simp add: util_screen_call_def detect_missing_def Let_def split: option.splits)
qed

lemma util_screen_call_objects: "snd (snd (util_screen_call df bat ff)) = (bat, ff)"
  by (simp add: util_screen_call_def b_shutdown_info_def Let_def split: option.splits)

lemma util_screen_battery_raises:
  "util_screen df (b # bat) feature_functions = Inl AssertionError
   \<or> util_screen df (b # bat) feature_functions = Inl KeyError
   \<or> util_screen df (b # bat) feature_functions = Inl TypeError"
  using util_screen_call_battery [of df b bat]
  by (auto simp add: util_screen_def returned_Inl split: option.splits)

lemma util_screen_Inr_battery:
  "util_screen df bat feature_functions = Inr r \<Longrightarrow> bat = []"
  by (cases r) (auto simp add: util_screen_def returned_Inr split: option.splits
      dest: util_screen_call_Inr)

text \<open>
  What the missing-data detection does on the whole: of every run of equal statuses in the
  sorted table the first row is kept, whatever users and devices the run goes through, so
  no two neighbours of the result have the same status.
\<close>

lemma util_screen_status_remdups_adj:
  assumes "util_screen df bat (Some ff) = Inr (out, caller)"
  shows "map screen_status out = remdups_adj (map screen_status (sort_values df))
     \<and> distinct_adj (map screen_status out)"
proof -
  from assms have "fst (util_screen_call df bat ff) = Inr out"
    by (simp add: util_screen_def returned_Inr)
  then have "out = discard_missing (detect_missing df)"
    by (simp add: util_screen_call_Inr)
  then show ?thesis by (simp add: discard_detect_status)
qed

text \<open>
  C1. With a non-empty battery table the merger is to extract the shutdown rows, map their
  values -1 and -2 to 0 and put them into the screen timeline, so that a battery value of
  -2 between two screen events gives a row of status 0 at its time. The code does not get
  there: the call of \<open>shutdown_info\<close> with two arguments raises TypeError. Here the
  screen events are at 0 and 20 and the battery value -2 is at 10.
\<close>

theorem util_screen_shutdown_between_events:
  "util_screen [ev 1 0 1, ev 1 20 3] [bt 1 10 ''-2''] (Some []) = Inl TypeError"
  by code_simp

text \<open>
  C6. The missing-data detection is to look at every user and device on its own and to drop
  an event exactly when it repeats the status of its neighbour in that sequence. The code
  shifts the status column of the whole sorted table, so the first event of a user is
  dropped when it has the status of the last event of the user before: here the only event
  of user 2.
\<close>

theorem util_screen_drops_across_users:
  "util_screen [ev 1 0 1, ev 2 5 1] [] (Some [])
     = Inr ([ev 1 0 1], ([ev 1 0 1, ev 2 5 1], Some [0, 1]), [], [])"
  by code_simp

section \<open>The metrics on an empty table\<close>

text \<open>
  C2. A metric whose classified and filtered table is empty is to skip the computation and
  to return an empty result without raising. The code skips the computation under
  \<open>if len(df2)>0\<close> and then returns \<open>result\<close>, which has never been assigned:
  UnboundLocalError. Three events of one user leave no classified row, four leave one
  classified row and no row with a duration.
\<close>

theorem metrics_empty_table_unbound:
  "screen_count [ev 1 0 1, ev 1 5 3, ev 1 20 1] [] (Some []) = Inl UnboundLocalError
   \<and> screen_duration [ev 1 0 1, ev 1 5 3, ev 1 20 1, ev 1 600 0] [] (Some [])
       = Inl UnboundLocalError
   \<and> screen_duration_min [ev 1 0 1, ev 1 5 3, ev 1 20 1, ev 1 600 0] [] (Some [])
       = Inl UnboundLocalError
   \<and> screen_duration_max [ev 1 0 1, ev 1 5 3, ev 1 20 1, ev 1 600 0] [] (Some [])
       = Inl UnboundLocalError
   \<and> screen_duration_mean [ev 1 0 1, ev 1 5 3, ev 1 20 1, ev 1 600 0] [] (Some [])
       = Inl UnboundLocalError
   \<and> screen_duration_median [ev 1 0 1, ev 1 5 3, ev 1 20 1, ev 1 600 0] [] (Some [])
       = Inl UnboundLocalError
   \<and> screen_duration_std [ev 1 0 1, ev 1 5 3, ev 1 20 1, ev 1 600 0] [] (Some [])
       = Inl UnboundLocalError"
  by code_simp

section \<open>The arguments of the metrics and of the dispatcher\<close>

text \<open>
  C10. Every metric that declares \<open>feature_functions=None\<close> asserts that
  \<open>feature_functions\<close> is a dict before it computes anything, so a call that leaves the
  argument out fails with an AssertionError, whatever the tables are.
\<close>

theorem metrics_assert_dict:
  "screen_off df bat None = Inl AssertionError
   \<and> screen_count df bat None = Inl AssertionError
   \<and> screen_duration df bat None = Inl AssertionError
   \<and> screen_duration_min df bat None = Inl AssertionError
   \<and> screen_duration_max df bat None = Inl AssertionError
   \<and> screen_duration_mean df bat None = Inl AssertionError
   \<and> screen_duration_median df bat None = Inl AssertionError
   \<and> screen_duration_std df bat None = Inl AssertionError"
  by (simp add: screen_off_def screen_count_def screen_duration_def screen_duration_min_def
      screen_duration_max_def screen_duration_mean_def screen_duration_median_def
      screen_duration_std_def duration_metric_def)

text \<open>
  C8. Called with an empty selection of metrics, which is not \<open>None\<close>, the dispatcher is
  to compute none of them and to return. The code computes none of them, and then
  \<open>pd.concat\<close> of the empty list raises ValueError.
\<close>

theorem extract_features_screen_empty_selection:
  "extract_features_screen df bat (Some []) = Inl ValueError"
  by (simp add: extract_features_screen_def pd_concat_def)

section \<open>The Transition Classifier\<close>

text \<open>
  C3. Every row that event_classification_screen retains comes from a row of the sorted
  table that has a next row of the same user, keeps its user, device, time and datetime,
  and carries the flags that the pair code of its status and of the next status decides:
  30, 31, 32 give use; 10, 12, 13, 20 give on; 21, 23 give irrelevant (\<open>na\<close>);
  01, 02, 03 give off; any other code gives no flag. The four flags are written
  (use, on, na, off).
\<close>

theorem event_classification_screen_flags:
  assumes "event_classification_screen df (Some ff) = Inr (out, caller)" and "r \<in> set out"
  shows "\<exists>i. Suc i < length (sort_values df) \<and>
     (let cur = sort_values df ! i; nxt = sort_values df ! Suc i;
          code = str (screen_status cur) @ str (screen_status nxt) in
      user nxt = user cur \<and> user r = user cur \<and> device r = device cur \<and> time r = time cur
      \<and> datetime r = datetime cur
      \<and> (use r, on r, na r, off r) =
          (if code = ''30'' \<or> code = ''31'' \<or> code = ''32'' then (1, 0, 0, 0)
           else if code = ''10'' \<or> code = ''12'' \<or> code = ''13'' \<or> code = ''20'' then (0, 1, 0, 0)
           else if code = ''21'' \<or> code = ''23'' then (0, 0, 1, 0)
           else if code = ''01'' \<or> code = ''02'' \<or> code = ''03'' then (0, 0, 0, 1)
           else (0, 0, 0, 0)))"
proof -
  from event_classification_screen_rows [OF assms(1)] assms(2)
  obtain df1 where "classified df = Inr df1" and "r \<in> set (snd df1)" by blast
  from classified_rows [OF this] obtain i where i: "Suc i < length (sort_values df)"
    "user (sort_values df ! Suc i) = user (sort_values df ! i)"
    "r = flags (sort_values df ! i,
                str (screen_status (sort_values df ! i))
                @ str (screen_status (sort_values df ! Suc i)))"
    by blast
  show ?thesis
    apply (rule exI [of _ i])
    unfolding Let_def i(3)
    using i(1) i(2) flags_table [of "sort_values df ! i"
        "str (screen_status (sort_values df ! i)) @ str (screen_status (sort_values df ! Suc i))"]
    by blast
qed

theorem event_classification_screen_flags_witness:
  "event_classification_screen scenario (Some [])
     = Inr ([tr 1 5 1 0 0 0], (scenario, [''13'', ''31'', ''10'', ''00'']), [])
   \<and> (\<exists>i. Suc i < length (sort_values scenario) \<and>
     (let cur = sort_values scenario ! i; nxt = sort_values scenario ! Suc i;
          code = str (screen_status cur) @ str (screen_status nxt) in
      user nxt = user cur \<and> user (tr 1 5 1 0 0 0) = user cur
      \<and> device (tr 1 5 1 0 0 0) = device cur \<and> time (tr 1 5 1 0 0 0) = time cur
      \<and> datetime (tr 1 5 1 0 0 0) = datetime cur
      \<and> (use (tr 1 5 1 0 0 0), on (tr 1 5 1 0 0 0), na (tr 1 5 1 0 0 0), off (tr 1 5 1 0 0 0)) =
          (if code = ''30'' \<or> code = ''31'' \<or> code = ''32'' then (1, 0, 0, 0)
           else if code = ''10'' \<or> code = ''12'' \<or> code = ''13'' \<or> code = ''20'' then (0, 1, 0, 0)
           else if code = ''21'' \<or> code = ''23'' then (0, 0, 1, 0)
           else if code = ''01'' \<or> code = ''02'' \<or> code = ''03'' then (0, 0, 0, 1)
           else (0, 0, 0, 0))))"
proof -
  have h: "event_classification_screen scenario (Some [])
     = Inr ([tr 1 5 1 0 0 0], (scenario, [''13'', ''31'', ''10'', ''00'']), [])"
    by code_simp
  have m: "tr 1 5 1 0 0 0 \<in> set [tr 1 5 1 0 0 0]" by simp
  from event_classification_screen_flags [OF h m] h show ?thesis by blast
qed

section \<open>The Duration Calculator\<close>

text \<open>
  C5. In duration_util_screen the artifact filter drops a row if and only if its on flag
  is set and its duration exceeds 10 hours, or its use flag is set and its duration exceeds
  10 hours; a row with neither flag (off, irrelevant) is never dropped by it. \<open>timed\<close>
  is the table the filter is applied to (the sorted rows with their durations, the last
  row of every user discarded); the durations are in seconds.
\<close>

theorem duration_util_screen_artifact_filter:
  assumes "duration_util_screen df = Inr (out, caller)"
  shows "\<exists>timed. durations df = Inr timed
     \<and> out = filter (\<lambda>(r, d). \<not> (on r = 1 \<and> (\<exists>x. d = Some x \<and> 10 * 60 * 60 < x))
                          \<and> \<not> (use r = 1 \<and> (\<exists>x. d = Some x \<and> 10 * 60 * 60 < x))) timed
     \<and> (\<forall>r d. (r, d) \<in> set timed \<longrightarrow>
           ((r, d) \<notin> set out \<longleftrightarrow>
              on r = 1 \<and> (\<exists>x. d = Some x \<and> 10 * 60 * 60 < x)
              \<or> use r = 1 \<and> (\<exists>x. d = Some x \<and> 10 * 60 * 60 < x)))
     \<and> (\<forall>r d. (r, d) \<in> set timed \<and> on r \<noteq> 1 \<and> use r \<noteq> 1 \<longrightarrow> (r, d) \<in> set out)"
proof -
  let ?P = "\<lambda>(r, d). \<not> (on r = 1 \<and> (\<exists>x. d = Some x \<and> 10 * 60 * 60 < x))
                          \<and> \<not> (use r = 1 \<and> (\<exists>x. d = Some x \<and> 10 * 60 * 60 < x))"
  from assms obtain timed where t: "durations df = Inr timed"
    and out: "out = filter (\<lambda>r. \<not> (use (fst r) = 1 \<and> exceeds (snd r) thr))
                      (filter (\<lambda>r. \<not> (on (fst r) = 1 \<and> exceeds (snd r) thr)) timed)"
    by (auto simp add: duration_util_screen_def Let_def split: sum.splits)
  have ex: "exceeds d thr \<longleftrightarrow> (\<exists>x. d = Some x \<and> 10 * 60 * 60 < x)" for d
    by (cases d) (simp_all add: exceeds_def thr_def)
  have eq: "out = filter ?P timed"
    unfolding out filter_filter by (rule filter_cong) (auto simp add: ex)
  show ?thesis
    apply (rule exI [of _ timed])
    apply (intro conjI)
       apply (rule t)
      apply (rule eq)
    unfolding eq by auto
qed

theorem duration_util_screen_artifact_filter_witness:
  "durations long_on = Inr [(tr 1 0 0 1 0 0, Some 39600), (tr 1 39600 0 1 0 0, Some 32400),
                            (tr 1 72000 0 0 0 1, Some 60)]
   \<and> duration_util_screen long_on
       = Inr ([(tr 1 39600 0 1 0 0, Some 32400), (tr 1 72000 0 0 0 1, Some 60)],
              (long_on, [Some 39600, Some 32400, Some 60, None]))
   \<and> (tr 1 0 0 1 0 0, Some (39600::int))
        \<notin> set [(tr 1 39600 0 1 0 0, Some 32400), (tr 1 72000 0 0 0 1, Some 60)]
   \<and> (tr 1 39600 0 1 0 0, Some (32400::int))
        \<in> set [(tr 1 39600 0 1 0 0, Some 32400), (tr 1 72000 0 0 0 1, Some 60)]"
proof -
  let ?timed = "[(tr 1 0 0 1 0 0, Some 39600), (tr 1 39600 0 1 0 0, Some 32400),
                 (tr 1 72000 0 0 0 1, Some (60::int))]"
  let ?out = "[(tr 1 39600 0 1 0 0, Some 32400), (tr 1 72000 0 0 0 1, Some (60::int))]"
  have h: "duration_util_screen long_on
             = Inr (?out, (long_on, [Some 39600, Some 32400, Some 60, None]))"
    by code_simp
  have d: "durations long_on = Inr ?timed"
    by code_simp
  from duration_util_screen_artifact_filter [OF h] d
  have iff: "\<forall>r d. (r, d) \<in> set ?timed \<longrightarrow>
           ((r, d) \<notin> set ?out \<longleftrightarrow>
              on r = 1 \<and> (\<exists>x. d = Some x \<and> 10 * 60 * 60 < x)
              \<or> use r = 1 \<and> (\<exists>x. d = Some x \<and> 10 * 60 * 60 < x))"
    by simp
  have on1: "on (tr 1 0 0 1 0 0) = 1" and on2: "on (tr 1 39600 0 1 0 0) = 1"
    and use2: "use (tr 1 39600 0 1 0 0) = 0"
    by (simp_all add: tr_def)
  have a: "(tr 1 0 0 1 0 0, Some 39600) \<notin> set ?out"
    using iff [rule_format, of "tr 1 0 0 1 0 0" "Some 39600"] on1 by simp
  have b: "(tr 1 39600 0 1 0 0, Some 32400) \<in> set ?out"
    using iff [rule_format, of "tr 1 39600 0 1 0 0" "Some 32400"] use2 by simp
  from h d a b show ?thesis by (intro conjI)
qed

section \<open>The end-to-end scenario\<close>

text \<open>
  The claim C4 as it stands: of the four events of the scenario the classifier retains the
  event at 5 with the flag use, and the Duration Calculator gives it the duration of 15
  time units. It does not: handed that one row, it returns no row with that duration.
\<close>

theorem scenario_duration_counterexample:
  "event_classification_screen scenario (Some [])
     = Inr ([tr 1 5 1 0 0 0], (scenario, [''13'', ''31'', ''10'', ''00'']), [])
   \<and> (tr 1 5 1 0 0 0, Some 15)
       \<notin> set (case duration_util_screen [tr 1 5 1 0 0 0] of Inl e \<Rightarrow> [] | Inr r \<Rightarrow> fst r)"
  by code_simp


text \<open>
  C4, amended. For a user with exactly the four screen events (0, status 1), (5, status 3),
  (20, status 1), (600, status 0) the merger keeps all four, the pair codes are 13, 31, 10
  (and 00 for the last row, discarded with it) with the flags on, use, on, and after the
  boundary trimming the event at 5 alone survives, with the flag use. The Duration
  Calculator measures the time to the next row of the table it is given and discards the
  last row of every user: given that single row it returns the empty table, and the event
  gets no duration.
\<close>

theorem scenario_no_duration:
  "util_screen scenario [] (Some [])
     = Inr (scenario, (scenario, Some [0, 0, 0, 0]), [], [])
   \<and> pair_codes (map screen_status (sort_values scenario)) = [''13'', ''31'', ''10'', ''00'']
   \<and> classified scenario = Inr (1, [tr 1 0 0 1 0 0, tr 1 5 1 0 0 0, tr 1 20 0 1 0 0])
   \<and> event_classification_screen scenario (Some [])
       = Inr ([tr 1 5 1 0 0 0], (scenario, [''13'', ''31'', ''10'', ''00'']), [])
   \<and> duration_util_screen [tr 1 5 1 0 0 0] = Inr ([], ([tr 1 5 1 0 0 0], [None]))"
  by code_simp


section \<open>What a call does to the caller's objects\<close>

lemma util_screen_in_place:
  assumes "util_screen df bat (Some ff) = Inr (out, (df', col), bat', ff')"
  shows "df' = sort_values df \<and> col = Some (missing_column (map screen_status (sort_values df)))
      \<and> bat' = bat \<and> ff' = ff"
proof -
  from assms have a: "fst (util_screen_call df bat ff) = Inr out"
    and b: "snd (util_screen_call df bat ff) = ((df', col), bat', ff')"
    by (simp_all add: util_screen_def returned_Inr)
  from util_screen_call_Inr [OF a] util_screen_call_objects [of df bat ff] b
  show ?thesis by simp
qed

lemma event_classification_screen_in_place:
  assumes "event_classification_screen df (Some ff) = Inr (out, (df', col), ff')"
  shows "df' = sort_values df \<and> col = pair_codes (map screen_status (sort_values df)) \<and> ff' = ff"
  using assms
  by (auto simp add: event_classification_screen_def split: option.splits sum.splits)

lemma duration_util_screen_in_place:
  assumes "duration_util_screen df = Inr (out, (df', col))"
  shows "df' = sort_values df \<and> col = shift_back (diff (map datetime (sort_values df)))"
  using assms
  by (auto simp add: duration_util_screen_def Let_def split: option.splits sum.splits)

lemma screen_off_call_objects:
  "snd (screen_off_call df bat ff) = snd (util_screen_call df bat ff)"
  by (simp add: screen_off_call_def Let_def split: prod.splits sum.splits)

lemma screen_off_call_Inr:
  "fst (screen_off_call df bat ff) = Inr out
     \<Longrightarrow> \<exists>df1. fst (util_screen_call df bat ff) = Inr df1"
  by (auto simp add: screen_off_call_def Let_def split: prod.splits sum.splits)

lemma screen_count_call_objects:
  "snd (screen_count_call df bat ff)
     = snd (util_screen_call df bat (default_resample_args ff))"
  by (simp add: screen_count_call_def Let_def split: prod.splits sum.splits)

lemma screen_count_call_Inr:
  "fst (screen_count_call df bat ff) = Inr out
     \<Longrightarrow> \<exists>df1. fst (util_screen_call df bat (default_resample_args ff)) = Inr df1"
  by (auto simp add: screen_count_call_def Let_def split: prod.splits sum.splits)

lemma duration_metric_call_objects:
  "snd (duration_metric_call reducer ending df bat ff)
     = snd (util_screen_call df bat (default_resample_args ff))"
  by (simp add: duration_metric_call_def Let_def split: prod.splits sum.splits)

lemma duration_metric_call_Inr:
  "fst (duration_metric_call reducer ending df bat ff) = Inr out
     \<Longrightarrow> \<exists>df1. fst (util_screen_call df bat (default_resample_args ff)) = Inr df1"
  by (auto simp add: duration_metric_call_def Let_def split: prod.splits sum.splits)

lemma screen_first_unlock_call_objects:
  "snd (screen_first_unlock_call df bat ff)
     = snd (util_screen_call df bat (default_resample_args ff))"
  by (simp add: screen_first_unlock_call_def Let_def split: prod.splits sum.splits)

lemma screen_first_unlock_call_Inr:
  "fst (screen_first_unlock_call df bat ff) = Inr out
     \<Longrightarrow> \<exists>df1. fst (util_screen_call df bat (default_resample_args ff)) = Inr df1"
  by (auto simp add: screen_first_unlock_call_def Let_def split: prod.splits sum.splits)

lemma screen_off_in_place:
  assumes "screen_off df bat (Some ff) = Inr (out, (df', col), bat', ff')"
  shows "df' = sort_values df \<and> col = Some (missing_column (map screen_status (sort_values df)))
      \<and> bat' = bat \<and> ff' = ff"
proof -
  from assms have a: "fst (screen_off_call df bat ff) = Inr out"
    and b: "snd (util_screen_call df bat ff) = ((df', col), bat', ff')"
    by (simp_all add: screen_off_def returned_Inr screen_off_call_objects)
  from screen_off_call_Inr [OF a] obtain df1 where "fst (util_screen_call df bat ff) = Inr df1" ..
  from util_screen_call_Inr [OF this] util_screen_call_objects [of df bat ff] b
  show ?thesis by simp
qed

lemma screen_count_in_place:
  assumes "screen_count df bat (Some ff) = Inr (out, (df', col), bat', ff')"
  shows "df' = sort_values df \<and> col = Some (missing_column (map screen_status (sort_values df)))
      \<and> bat' = bat \<and> ff' = default_resample_args ff"
proof -
  let ?ff = "default_resample_args ff"
  from assms have a: "fst (screen_count_call df bat ff) = Inr out"
    and b: "snd (util_screen_call df bat ?ff) = ((df', col), bat', ff')"
    by (simp_all add: screen_count_def returned_Inr screen_count_call_objects)
  from screen_count_call_Inr [OF a] obtain df1 where "fst (util_screen_call df bat ?ff) = Inr df1" ..
  from util_screen_call_Inr [OF this] util_screen_call_objects [of df bat ?ff] b
  show ?thesis by simp
qed

lemma duration_metric_in_place:
  assumes "duration_metric reducer ending df bat (Some ff) = Inr (out, (df', col), bat', ff')"
  shows "df' = sort_values df \<and> col = Some (missing_column (map screen_status (sort_values df)))
      \<and> bat' = bat \<and> ff' = default_resample_args ff"
proof -
  let ?ff = "default_resample_args ff"
  from assms have a: "fst (duration_metric_call reducer ending df bat ff) = Inr out"
    and b: "snd (util_screen_call df bat ?ff) = ((df', col), bat', ff')"
    by (simp_all add: duration_metric_def returned_Inr duration_metric_call_objects)
  from duration_metric_call_Inr [OF a]
  obtain df1 where "fst (util_screen_call df bat ?ff) = Inr df1" ..
  from util_screen_call_Inr [OF this] util_screen_call_objects [of df bat ?ff] b
  show ?thesis by simp
qed

lemma screen_first_unlock_in_place:
  assumes "screen_first_unlock df bat (Some ff) = Inr (out, (df', col), bat', ff')"
  shows "df' = sort_values df \<and> col = Some (missing_column (map screen_status (sort_values df)))
      \<and> bat' = bat \<and> ff' = default_resample_args ff"
proof -
  let ?ff = "default_resample_args ff"
  from assms have a: "fst (screen_first_unlock_call df bat ff) = Inr out"
    and b: "snd (util_screen_call df bat ?ff) = ((df', col), bat', ff')"
    by (simp_all add: screen_first_unlock_def returned_Inr screen_first_unlock_call_objects)
  from screen_first_unlock_call_Inr [OF a]
  obtain df1 where "fst (util_screen_call df bat ?ff) = Inr df1" ..
  from util_screen_call_Inr [OF this] util_screen_call_objects [of df bat ?ff] b
  show ?thesis by simp
qed

lemma default_resample_args_absent:
  "map_of ff ''resample_args'' = None \<Longrightarrow>
     map_of (default_resample_args ff) ''resample_args'' = Some (VDict [(''rule'', ''30T'')])"
  by (simp add: default_resample_args_def update_conv')

text \<open>
  The claim C9 as it stands: no operation changes the caller's screen table, battery table
  or configuration. After \<open>util_screen\<close> the caller's table, which was out of order, is
  sorted (and has the column \<open>missing\<close>), and after \<open>screen_count\<close> the caller's
  empty dict holds \<open>resample_args\<close>.
\<close>

theorem pipeline_mutates_caller_counterexample:
  "util_screen unsorted [] (Some []) = Inr (scenario, (scenario, Some [0, 0, 0, 0]), [], [])
   \<and> scenario \<noteq> unsorted
   \<and> screen_count unsorted [] (Some [])
       = Inr ([Resampled ''screen_on_count'' ''sum'' [(''rule'', ''30T'')] [(1, 5, Some 0)],
               Resampled ''screen_off_count'' ''sum'' [(''rule'', ''30T'')] [(1, 5, Some 0)],
               Resampled ''screen_use_count'' ''sum'' [(''rule'', ''30T'')] [(1, 5, Some 1)]],
              (scenario, Some [0, 0, 0, 0]), [],
              [(''resample_args'', VDict [(''rule'', ''30T'')])])
   \<and> [(''resample_args'', VDict [(''rule'', ''30T'')])] \<noteq> ([] :: config)"
  by code_simp


text \<open>
  C9, amended. The battery table is left as it was by every operation, whether the call
  returns or raises and whatever the battery table holds (the conjuncts on
  \<open>util_screen_call\<close> and on the calls of the metrics, which give the caller's objects
  at the end of a call with a dict as configuration; without a dict the call stops at its
  assertions). The configuration is left as it was by util_screen,
  event_classification_screen and screen_off. The caller's
  screen table is worked on in place: after a call of util_screen, of
  event_classification_screen or of duration_util_screen that returns, the caller's table
  is sorted by user, device and datetime and has one more column (\<open>missing\<close>,
  \<open>next\<close> and \<open>duration\<close>); after a metric it is as util_screen has left it. screen_count,
  screen_duration with its five variants and screen_first_unlock store
  \<open>resample_args = {"rule": "30T"}\<close> in the caller's configuration when it has no
  \<open>resample_args\<close>, and leave it alone when it has.
\<close>

theorem pipeline_in_place:
  "(util_screen df bat (Some ff) = Inr (out1, (df1, col1), bat1, ff1) \<longrightarrow>
      df1 = sort_values df
      \<and> col1 = Some (missing_column (map screen_status (sort_values df)))
      \<and> bat1 = bat \<and> ff1 = ff)
   \<and> (event_classification_screen df (Some ff) = Inr (out2, (df2, col2), ff2) \<longrightarrow>
      df2 = sort_values df \<and> col2 = pair_codes (map screen_status (sort_values df))
      \<and> ff2 = ff)
   \<and> (duration_util_screen tdf = Inr (out3, (df3, col3)) \<longrightarrow>
      df3 = sort_values tdf \<and> col3 = shift_back (diff (map datetime (sort_values tdf))))
   \<and> (screen_off df bat (Some ff) = Inr (out4, (df4, col4), bat4, ff4) \<longrightarrow>
      df4 = sort_values df
      \<and> col4 = Some (missing_column (map screen_status (sort_values df)))
      \<and> bat4 = bat \<and> ff4 = ff)
   \<and> ((metric = screen_count \<or> metric = screen_duration \<or> metric = screen_duration_min
        \<or> metric = screen_duration_max \<or> metric = screen_duration_mean
        \<or> metric = screen_duration_median \<or> metric = screen_duration_std
        \<or> metric = screen_first_unlock)
       \<and> metric df bat (Some ff) = Inr (out5, (df5, col5), bat5, ff5) \<longrightarrow>
      df5 = sort_values df
      \<and> col5 = Some (missing_column (map screen_status (sort_values df)))
      \<and> bat5 = bat \<and> ff5 = default_resample_args ff
      \<and> (map_of ff ''resample_args'' = None \<longrightarrow>
           map_of ff5 ''resample_args'' = Some (VDict [(''rule'', ''30T'')])))
   \<and> snd (snd (util_screen_call df bat ff)) = (bat, ff)
   \<and> snd (snd (screen_off_call df bat ff)) = (bat, ff)
   \<and> snd (snd (screen_count_call df bat ff)) = (bat, default_resample_args ff)
   \<and> snd (snd (duration_metric_call reducer ending df bat ff)) = (bat, default_resample_args ff)
   \<and> snd (snd (screen_first_unlock_call df bat ff)) = (bat, default_resample_args ff)"
proof -
  have m: "df5 = sort_values df
      \<and> col5 = Some (missing_column (map screen_status (sort_values df)))
      \<and> bat5 = bat \<and> ff5 = default_resample_args ff"
    if "metric = screen_count \<or> metric = screen_duration \<or> metric = screen_duration_min
        \<or> metric = screen_duration_max \<or> metric = screen_duration_mean
        \<or> metric = screen_duration_median \<or> metric = screen_duration_std
        \<or> metric = screen_first_unlock"
      and "metric df bat (Some ff) = Inr (out5, (df5, col5), bat5, ff5)"
    using that
    by (elim disjE)
      (simp_all add: screen_count_in_place screen_first_unlock_in_place
        screen_duration_def screen_duration_min_def screen_duration_max_def
        screen_duration_mean_def screen_duration_median_def screen_duration_std_def
        duration_metric_in_place)
  show ?thesis
    using util_screen_in_place [of df bat ff out1 df1 col1 bat1 ff1]
      event_classification_screen_in_place [of df ff out2 df2 col2 ff2]
      duration_util_screen_in_place [of tdf out3 df3 col3]
      screen_off_in_place [of df bat ff out4 df4 col4 bat4 ff4]
      m default_resample_args_absent [of ff]
    by (simp only: util_screen_call_objects screen_off_call_objects screen_count_call_objects
        duration_metric_call_objects screen_first_unlock_call_objects) blast
qed

theorem pipeline_in_place_witness:
  "util_screen unsorted [] (Some []) = Inr (scenario, (scenario, Some [0, 0, 0, 0]), [], [])
   \<and> scenario = sort_values unsorted
   \<and> event_classification_screen unsorted (Some [])
       = Inr ([tr 1 5 1 0 0 0], (scenario, [''13'', ''31'', ''10'', ''00'']), [])
   \<and> [''13'', ''31'', ''10'', ''00''] = pair_codes (map screen_status (sort_values unsorted))
   \<and> duration_util_screen [tr 1 20 0 1 0 0, tr 1 5 1 0 0 0]
       = Inr ([(tr 1 5 1 0 0 0, Some 15)],
              ([tr 1 5 1 0 0 0, tr 1 20 0 1 0 0], [Some 15, None]))
   \<and> [tr 1 5 1 0 0 0, tr 1 20 0 1 0 0] = sort_values [tr 1 20 0 1 0 0, tr 1 5 1 0 0 0]
   \<and> screen_off unsorted [] (Some [])
       = Inr ([Plain ''screen_off'' [(1, 600, 1)]], (scenario, Some [0, 0, 0, 0]), [], [])
   \<and> screen_count unsorted [] (Some [])
       = Inr ([Resampled ''screen_on_count'' ''sum'' [(''rule'', ''30T'')] [(1, 5, Some 0)],
               Resampled ''screen_off_count'' ''sum'' [(''rule'', ''30T'')] [(1, 5, Some 0)],
               Resampled ''screen_use_count'' ''sum'' [(''rule'', ''30T'')] [(1, 5, Some 1)]],
              (scenario, Some [0, 0, 0, 0]), [],
              [(''resample_args'', VDict [(''rule'', ''30T'')])])
   \<and> [(''resample_args'', VDict [(''rule'', ''30T'')])] = default_resample_args []
   \<and> fst (util_screen_call scenario [bt 1 10 ''-2''] []) = Inl TypeError
   \<and> snd (snd (util_screen_call scenario [bt 1 10 ''-2''] [])) = ([bt 1 10 ''-2''], [])
   \<and> fst (screen_off_call scenario [bt 1 10 ''-2''] []) = Inl TypeError
   \<and> snd (snd (screen_off_call scenario [bt 1 10 ''-2''] [])) = ([bt 1 10 ''-2''], [])
   \<and> fst (screen_count_call scenario [bt 1 10 ''-2''] []) = Inl TypeError
   \<and> snd (snd (screen_count_call scenario [bt 1 10 ''-2''] []))
       = ([bt 1 10 ''-2''], [(''resample_args'', VDict [(''rule'', ''30T'')])])
   \<and> fst (duration_metric_call ''sum'' ''total'' scenario [bt 1 10 ''-2''] []) = Inl TypeError
   \<and> snd (snd (duration_metric_call ''sum'' ''total'' scenario [bt 1 10 ''-2''] []))
       = ([bt 1 10 ''-2''], [(''resample_args'', VDict [(''rule'', ''30T'')])])
   \<and> fst (screen_first_unlock_call scenario [bt 1 10 ''-2''] []) = Inl TypeError
   \<and> snd (snd (screen_first_unlock_call scenario [bt 1 10 ''-2''] []))
       = ([bt 1 10 ''-2''], [(''resample_args'', VDict [(''rule'', ''30T'')])])"
proof -
  let ?count = "[Resampled ''screen_on_count'' ''sum'' [(''rule'', ''30T'')] [(1::nat, 5, Some 0)],
               Resampled ''screen_off_count'' ''sum'' [(''rule'', ''30T'')] [(1, 5, Some 0)],
               Resampled ''screen_use_count'' ''sum'' [(''rule'', ''30T'')] [(1, 5, Some 1)]]"
  have h1: "util_screen unsorted [] (Some [])
      = Inr (scenario, (scenario, Some [0, 0, 0, 0]), [], [])"
    by code_simp
  have h2: "event_classification_screen unsorted (Some [])
      = Inr ([tr 1 5 1 0 0 0], (scenario, [''13'', ''31'', ''10'', ''00'']), [])"
    by code_simp
  have h3: "duration_util_screen [tr 1 20 0 1 0 0, tr 1 5 1 0 0 0]
      = Inr ([(tr 1 5 1 0 0 0, Some 15)],
             ([tr 1 5 1 0 0 0, tr 1 20 0 1 0 0], [Some 15, None]))"
    by code_simp
  have h4: "screen_off unsorted [] (Some [])
      = Inr ([Plain ''screen_off'' [(1, 600, 1)]], (scenario, Some [0, 0, 0, 0]), [], [])"
    by code_simp
  have h5: "screen_count unsorted [] (Some [])
      = Inr (?count, (scenario, Some [0, 0, 0, 0]), [],
             [(''resample_args'', VDict [(''rule'', ''30T'')])])"
    by code_simp
  from pipeline_in_place [where df = unsorted and bat = "[]" and ff = "[]"
      and ?out1.0 = scenario and ?df1.0 = scenario and ?col1.0 = "Some [0, 0, 0, 0]"
      and ?bat1.0 = "[]" and ?ff1.0 = "[]"
      and ?out2.0 = "[tr 1 5 1 0 0 0]" and ?df2.0 = scenario
      and ?col2.0 = "[''13'', ''31'', ''10'', ''00'']" and ?ff2.0 = "[]"
      and tdf = "[tr 1 20 0 1 0 0, tr 1 5 1 0 0 0]"
      and ?out3.0 = "[(tr 1 5 1 0 0 0, Some 15)]"
      and ?df3.0 = "[tr 1 5 1 0 0 0, tr 1 20 0 1 0 0]" and ?col3.0 = "[Some 15, None]"
      and ?out4.0 = "[Plain ''screen_off'' [(1, 600, 1)]]" and ?df4.0 = scenario
      and ?col4.0 = "Some [0, 0, 0, 0]" and ?bat4.0 = "[]" and ?ff4.0 = "[]"
      and metric = screen_count and ?out5.0 = ?count and ?df5.0 = scenario
      and ?col5.0 = "Some [0, 0, 0, 0]" and ?bat5.0 = "[]"
      and ?ff5.0 = "[(''resample_args'', VDict [(''rule'', ''30T'')])]"
      and reducer = "''sum''" and ending = "''total''"]
    h1 h2 h3 h4 h5
  have a: "util_screen unsorted [] (Some [])
       = Inr (scenario, (scenario, Some [0, 0, 0, 0]), [], [])
   \<and> scenario = sort_values unsorted
   \<and> event_classification_screen unsorted (Some [])
       = Inr ([tr 1 5 1 0 0 0], (scenario, [''13'', ''31'', ''10'', ''00'']), [])
   \<and> [''13'', ''31'', ''10'', ''00''] = pair_codes (map screen_status (sort_values unsorted))
   \<and> duration_util_screen [tr 1 20 0 1 0 0, tr 1 5 1 0 0 0]
       = Inr ([(tr 1 5 1 0 0 0, Some 15)],
              ([tr 1 5 1 0 0 0, tr 1 20 0 1 0 0], [Some 15, None]))
   \<and> [tr 1 5 1 0 0 0, tr 1 20 0 1 0 0] = sort_values [tr 1 20 0 1 0 0, tr 1 5 1 0 0 0]
   \<and> screen_off unsorted [] (Some [])
       = Inr ([Plain ''screen_off'' [(1, 600, 1)]], (scenario, Some [0, 0, 0, 0]), [], [])
   \<and> screen_count unsorted [] (Some [])
       = Inr (?count, (scenario, Some [0, 0, 0, 0]), [],
              [(''resample_args'', VDict [(''rule'', ''30T'')])])
   \<and> [(''resample_args'', VDict [(''rule'', ''30T'')])] = default_resample_args []"
    by simp
  have d: "default_resample_args [] = [(''resample_args'', VDict [(''rule'', ''30T'')])]"
    by code_simp
  have e: "fst (util_screen_call scenario [bt 1 10 ''-2''] []) = Inl TypeError"
    "fst (screen_off_call scenario [bt 1 10 ''-2''] []) = Inl TypeError"
    "fst (screen_count_call scenario [bt 1 10 ''-2''] []) = Inl TypeError"
    "fst (duration_metric_call ''sum'' ''total'' scenario [bt 1 10 ''-2''] []) = Inl TypeError"
    "fst (screen_first_unlock_call scenario [bt 1 10 ''-2''] []) = Inl TypeError"
    by code_simp+
  from pipeline_in_place [where df = scenario and bat = "[bt 1 10 ''-2'']" and ff = "[]"
      and reducer = "''sum''" and ending = "''total''"
      and ?out1.0 = "[]" and ?df1.0 = "[]" and ?col1.0 = None and ?bat1.0 = "[]"
      and ?ff1.0 = "[]" and ?out2.0 = "[]" and ?df2.0 = "[]" and ?col2.0 = "[]"
      and ?ff2.0 = "[]" and tdf = "[]" and ?out3.0 = "[]" and ?df3.0 = "[]"
      and ?col3.0 = "[]" and ?out4.0 = "[]" and ?df4.0 = "[]" and ?col4.0 = None
      and ?bat4.0 = "[]" and ?ff4.0 = "[]" and metric = screen_count and ?out5.0 = "[]"
      and ?df5.0 = "[]" and ?col5.0 = None and ?bat5.0 = "[]" and ?ff5.0 = "[]"]
  have b: "snd (snd (util_screen_call scenario [bt 1 10 ''-2''] [])) = ([bt 1 10 ''-2''], [])
   \<and> snd (snd (screen_off_call scenario [bt 1 10 ''-2''] [])) = ([bt 1 10 ''-2''], [])
   \<and> snd (snd (screen_count_call scenario [bt 1 10 ''-2''] []))
       = ([bt 1 10 ''-2''], [(''resample_args'', VDict [(''rule'', ''30T'')])])
   \<and> snd (snd (duration_metric_call ''sum'' ''total'' scenario [bt 1 10 ''-2''] []))
       = ([bt 1 10 ''-2''], [(''resample_args'', VDict [(''rule'', ''30T'')])])
   \<and> snd (snd (screen_first_unlock_call scenario [bt 1 10 ''-2''] []))
       = ([bt 1 10 ''-2''], [(''resample_args'', VDict [(''rule'', ''30T'')])])"
    unfolding d by blast
  from a b e show ?thesis by (intro conjI) blast+
qed


end
